theory Spec2Isabelle
  imports Main
begin

section \<open>The search screen of fwew-react (src/components/fwew-screen.tsx)\<close>

text \<open>
  The component \<open>FwewScreen\<close> keeps six \<open>useState\<close> cells, reads two settings objects
  from \<open>SettingsContext\<close>, builds endpoint URLs and issues \<open>axios.get\<close> requests whose
  \<open>then\<close>/\<open>catch\<close> callbacks write the cells. The model is explicit state passing: each
  handler of the component is a function from the state of one render to the state of the
  next, and the requests it issues are appended to a list kept beside the cells, as are
  the exceptions that leave a handler. A handler or callback runs as one step: the renders
  between two writes of the same callback are not states of the model.

  Strings are \<open>string\<close>: a JavaScript string is represented by the bytes of its
  generalised UTF-8 encoding, so an ASCII character is one \<open>char\<close>. A surrogate pair is
  the four bytes of its code point, as in UTF-8; a lone surrogate (a code unit between
  D800 and DFFF that is not part of a pair) is the three bytes \<open>ED\<close>, \<open>A0\<close> to \<open>BF\<close>,
  \<open>80\<close> to \<open>BF\<close>, a sequence that no other character produces. Every template literal
  of the source puts an ASCII character between two interpolated strings, so that
  concatenation never joins two lone surrogates into a pair and is \<open>@\<close> on the bytes.
\<close>

subsection \<open>Data\<close>

text \<open>
  \<open>Word\<close> and \<open>FwewError\<close> (lib/interfaces) are interfaces declared outside the two source
  files; they are the type parameters \<open>'w\<close> and \<open>'e\<close>. The cells \<open>err\<close> and \<open>selectedItem\<close>
  start as the empty object cast to the interface (\<open>{} as FwewError\<close>, \<open>{} as Word\<close>), which
  has none of the interface's fields: \<open>EmptyObject\<close>.
\<close>

datatype 'a obj = EmptyObject | Fields 'a

text \<open>
  The body of an error response, \<open>serverError.response.data\<close>. The cast of line 174 to
  \<open>AxiosError<FwewError>\<close> is not checked when the program runs: the body is either an
  object of the shape of \<open>FwewError\<close>, or whatever else the server sent (the raw text of
  a body that is not such an object, the empty text for no body).
\<close>

datatype 'e body = Structured 'e | Unstructured string

text \<open>The exceptions the code can raise.\<close>

datatype js_exn = TypeError | URIError

record SettingsFwew =
  isReverseEnabled :: bool

record SettingsGlobal =
  languageCodeUI :: string
  languageCode :: string

text \<open>
  The cells of lines 61-66, the two context values of lines 67-71, and \<open>pending\<close>: the URLs
  handed to \<open>axios.get\<close> whose promise has not settled yet, oldest first, and \<open>uncaught\<close>:
  the exceptions that have left a handler of the screen, oldest first.
\<close>

record ('w, 'e) screen =
  isLoading :: bool
  text' :: string
  data :: "'w list"
  err :: "'e body obj"
  isModalVisible :: bool
  selectedItem :: "'w obj"
  settingsFwew :: SettingsFwew
  settingsGlobal :: SettingsGlobal
  pending :: "string list"
  uncaught :: "js_exn list"

definition initial :: "SettingsFwew \<Rightarrow> SettingsGlobal \<Rightarrow> ('w, 'e) screen" where
  "initial sf sg =
     \<lparr> isLoading = True, text' = [], data = [], err = EmptyObject,
       isModalVisible = False, selectedItem = EmptyObject,
       settingsFwew = sf, settingsGlobal = sg, pending = [], uncaught = [] \<rparr>"

subsection \<open>encodeURI\<close>

text \<open>
  \<open>encodeURI\<close> is the ECMAScript builtin: a character of the unescaped set (the reserved
  characters, letters, digits, the marks, and \<open>#\<close>) is kept, every other character is
  replaced by \<open>%XX\<close> for each byte of its UTF-8 encoding, in upper-case hexadecimal. On a
  string with a lone surrogate it throws \<open>URIError\<close>.
\<close>

definition uriReserved :: string where
  "uriReserved = '';/?:@&=+$,''"

definition uriAlpha :: string where
  "uriAlpha = ''abcdefghijklmnopqrstuvwxyzABCDEFGHIJKLMNOPQRSTUVWXYZ''"

definition decimalDigit :: string where
  "decimalDigit = ''0123456789''"

definition uriMark :: string where
  "uriMark = [CHR ''-'', CHR ''_'', CHR ''.'', CHR ''!'', CHR ''~'', CHR ''*'', CHR 0x27,
              CHR ''('', CHR '')'']"

definition unescapedURISet :: string where
  "unescapedURISet = uriReserved @ uriAlpha @ decimalDigit @ uriMark @ ''#''"

definition hexDigit :: "nat \<Rightarrow> char" where
  "hexDigit n = ''0123456789ABCDEF'' ! (n mod 16)"

definition percentByte :: "char \<Rightarrow> string" where
  "percentByte c = [CHR ''%'', hexDigit (of_char c div 16), hexDigit (of_char c mod 16)]"

definition encodeByte :: "char \<Rightarrow> string" where
  "encodeByte c = (if c \<in> set unescapedURISet then [c] else percentByte c)"

definition encode :: "string \<Rightarrow> string" where
  "encode s = concat (map encodeByte s)"

definition isSurrogateSecond :: "char \<Rightarrow> bool" where
  "isSurrogateSecond c = ((0xA0 :: nat) \<le> of_char c \<and> (of_char c :: nat) \<le> 0xBF)"

fun hasLoneSurrogate :: "string \<Rightarrow> bool" where
  "hasLoneSurrogate (c1 # c2 # cs) =
     (if c1 = CHR 0xED
      then (if isSurrogateSecond c2 then True else hasLoneSurrogate (c2 # cs))
      else hasLoneSurrogate (c2 # cs))"
| "hasLoneSurrogate cs = False"

definition encodeURI :: "string \<Rightarrow> js_exn + string" where
  "encodeURI s = (if hasLoneSurrogate s then Inl URIError else Inr (encode s))"

subsection \<open>The handlers\<close>

text \<open>
  \<open>apiRoot\<close> (lib/settings) is a constant declared outside the source files: a parameter.
  \<open>getEndpoint\<close> (lines 147-155) takes an optional argument; \<open>!text\<close> holds for
  \<open>undefined\<close> and for the empty string.
\<close>

definition getEndpoint :: "string \<Rightarrow> ('w, 'e) screen \<Rightarrow> string option \<Rightarrow> string" where
  "getEndpoint apiRoot s t =
     (case t of
        None \<Rightarrow> apiRoot @ ''/list/''
      | Some tx \<Rightarrow>
          if tx = [] then apiRoot @ ''/list/''
          else if isReverseEnabled (settingsFwew s)
               then apiRoot @ ''/fwew/r/'' @ languageCode (settingsGlobal s) @ ''/'' @ tx
               else apiRoot @ ''/fwew/'' @ tx)"

text \<open>
  The endpoint derivation as a function of text, direction flag and language code: the
  flag and the code are read from the two settings objects of the render.
\<close>

definition withSettings :: "bool \<Rightarrow> string \<Rightarrow> ('w, 'e) screen \<Rightarrow> ('w, 'e) screen" where
  "withSettings reverse lang s =
     s\<lparr> settingsFwew := (settingsFwew s)\<lparr> isReverseEnabled := reverse \<rparr>,
        settingsGlobal := (settingsGlobal s)\<lparr> languageCode := lang \<rparr> \<rparr>"

text \<open>
  \<open>fetchData\<close> (lines 164-180), up to the point where the promise is created: the loading
  flag is set and \<open>axios.get\<close> receives \<open>encodeURI(endpoint)\<close>. When \<open>encodeURI\<close> throws,
  \<open>axios.get\<close> is not called: the exception leaves \<open>fetchData\<close> and the handler that called
  it, with the loading flag set. In every handler the call of \<open>fetchData\<close> is the last
  statement, so nothing of the handler is skipped.
\<close>

definition fetchData :: "string \<Rightarrow> ('w, 'e) screen \<Rightarrow> ('w, 'e) screen" where
  "fetchData endpoint s =
     (case encodeURI endpoint of
        Inl exn \<Rightarrow> s\<lparr> isLoading := True, uncaught := uncaught s @ [exn] \<rparr>
      | Inr url \<Rightarrow> s\<lparr> isLoading := True, pending := pending s @ [url] \<rparr>)"

text \<open>
  How the promise of \<open>axios.get\<close> settles. It resolves with a response whose \<open>data\<close> is a
  list of words, or rejects with a value \<open>e\<close>: an \<open>AxiosError\<close>, whose \<open>response\<close> is
  optional (\<open>None\<close> when no response was received, \<open>Some d\<close> for a response with body
  \<open>d\<close>), or any other value, for which \<open>axios.isAxiosError\<close> is false.
\<close>

datatype 'e rejection = AxiosError "'e body option" | OtherError

datatype ('w, 'e) settled = Resolved "'w list" | Rejected "'e rejection"

text \<open>The \<open>then\<close> callback of lines 168-171.\<close>

definition fetchData_then :: "'w list \<Rightarrow> ('w, 'e) screen \<Rightarrow> ('w, 'e) screen" where
  "fetchData_then response_data s = s\<lparr> data := response_data, isLoading := False \<rparr>"

text \<open>
  The \<open>catch\<close> callback of lines 172-179. For an \<open>AxiosError\<close> without a response,
  \<open>serverError.response.data\<close> reads a property of \<open>undefined\<close>: a \<open>TypeError\<close> is thrown
  while the argument of \<open>setErr\<close> is evaluated, before any cell is written.
\<close>

definition fetchData_catch :: "'e rejection \<Rightarrow> ('w, 'e) screen \<Rightarrow> js_exn + ('w, 'e) screen" where
  "fetchData_catch e s =
     (case e of
        OtherError \<Rightarrow> Inr s
      | AxiosError None \<Rightarrow> Inl TypeError
      | AxiosError (Some d) \<Rightarrow> Inr (s\<lparr> err := Fields d, data := [], isLoading := False \<rparr>))"

text \<open>
  The state once the promise has settled and its callback has run. An exception thrown
  inside the \<open>catch\<close> callback rejects the promise that \<open>catch\<close> returned, which nobody
  observes: the cells stay as they were.
\<close>

definition settle :: "('w, 'e) settled \<Rightarrow> ('w, 'e) screen \<Rightarrow> ('w, 'e) screen" where
  "settle out s =
     (case out of
        Resolved response_data \<Rightarrow> fetchData_then response_data s
      | Rejected e \<Rightarrow> (case fetchData_catch e s of Inl _ \<Rightarrow> s | Inr s' \<Rightarrow> s'))"

text \<open>\<open>toggleModal\<close> (lines 141-144).\<close>

definition toggleModal :: "'w obj \<Rightarrow> ('w, 'e) screen \<Rightarrow> ('w, 'e) screen" where
  "toggleModal item s = s\<lparr> isModalVisible := \<not> isModalVisible s, selectedItem := item \<rparr>"

text \<open>\<open>onRefresh\<close> (lines 158-161).\<close>

definition onRefresh :: "string \<Rightarrow> ('w, 'e) screen \<Rightarrow> ('w, 'e) screen" where
  "onRefresh apiRoot s = fetchData (getEndpoint apiRoot s (Some (text' s))) (s\<lparr> data := [] \<rparr>)"

text \<open>\<open>searchData\<close> (lines 183-190).\<close>

definition searchData :: "string \<Rightarrow> string \<Rightarrow> ('w, 'e) screen \<Rightarrow> ('w, 'e) screen" where
  "searchData apiRoot tx s =
     (if tx = [] then fetchData (apiRoot @ ''/list/'') (s\<lparr> text' := tx \<rparr>)
      else fetchData (getEndpoint apiRoot s (Some tx)) (s\<lparr> text' := tx \<rparr>))"

text \<open>
  Modelled from the spec: \<open>onUpdateSettingsFwew\<close> belongs to the settings store
  (\<open>../context\<close>), which is not among the source files. The specification says that the
  toggle "persists the flag to SettingsStore": the store keeps the object it is given, and
  the next render reads \<open>settingsFwew\<close> from it.
\<close>

definition onUpdateSettingsFwew :: "SettingsFwew \<Rightarrow> ('w, 'e) screen \<Rightarrow> ('w, 'e) screen" where
  "onUpdateSettingsFwew new s = s\<lparr> settingsFwew := new \<rparr>"

text \<open>\<open>toggleReverse\<close> (lines 193-205).\<close>

definition toggleReverse :: "string \<Rightarrow> ('w, 'e) screen \<Rightarrow> ('w, 'e) screen" where
  "toggleReverse apiRoot s =
     (let newIsReverseEnabled = \<not> isReverseEnabled (settingsFwew s);
          s1 = onUpdateSettingsFwew
                 ((settingsFwew s)\<lparr> isReverseEnabled := newIsReverseEnabled \<rparr>) s
      in if text' s = [] then s1
         else if newIsReverseEnabled
              then fetchData (apiRoot @ ''/fwew/r/'' @ languageCode (settingsGlobal s) @ ''/''
                                @ text' s) s1
              else fetchData (apiRoot @ ''/fwew/'' @ text' s) s1)"

text \<open>The effect of lines 77-79, run once after the first render.\<close>

definition mount :: "string \<Rightarrow> ('w, 'e) screen \<Rightarrow> ('w, 'e) screen" where
  "mount apiRoot s = fetchData (apiRoot @ ''/list/'') s"

subsection \<open>What is rendered\<close>

text \<open>
  The children of the main view (lines 217-243): the activity indicator under
  \<open>If condition={isLoading}\<close>, the result count and the word list under
  \<open>If condition={!isLoading}\<close>, and the modal.
\<close>

datatype ('w, 'e) element =
    ActivityIndicator
  | ResultCount "'w list"
  | WordList "'w list" "'e body obj" string bool
  | Modal bool "'w obj"

definition render :: "('w, 'e) screen \<Rightarrow> ('w, 'e) element list" where
  "render s =
     (if isLoading s then [ActivityIndicator] else [])
     @ (if \<not> isLoading s
        then [ResultCount (data s), WordList (data s) (err s) (text' s) (isLoading s)]
        else [])
     @ [Modal (isModalVisible s) (selectedItem s)]"

subsection \<open>Runs of the screen\<close>

text \<open>
  The events of a mounted screen. The search bar and the direction toggle live in the
  header and are always there; pull-to-refresh and the selection of an entry come from
  the word list, which is rendered only when \<open>isLoading\<close> is false, and an entry is one of
  \<open>data\<close>; the modal is dismissed only while it is visible. \<open>Settled i out\<close> is the
  \<open>i\<close>-th pending request settling as \<open>out\<close>: requests are not cancelled and may settle
  in any order. An event that cannot happen in a state leaves it as it is.
\<close>

datatype ('w, 'e) event =
    TextChanged string
  | DirectionToggled
  | PullToRefresh
  | EntrySelected 'w
  | ModalDismissed
  | Settled nat "('w, 'e) settled"

definition step :: "string \<Rightarrow> ('w, 'e) event \<Rightarrow> ('w, 'e) screen \<Rightarrow> ('w, 'e) screen" where
  "step apiRoot ev s =
     (case ev of
        TextChanged tx \<Rightarrow> searchData apiRoot tx s
      | DirectionToggled \<Rightarrow> toggleReverse apiRoot s
      | PullToRefresh \<Rightarrow> if isLoading s then s else onRefresh apiRoot s
      | EntrySelected w \<Rightarrow>
          if \<not> isLoading s \<and> w \<in> set (data s) then toggleModal (Fields w) s else s
      | ModalDismissed \<Rightarrow> if isModalVisible s then toggleModal (selectedItem s) s else s
      | Settled i out \<Rightarrow>
          if i < length (pending s)
          then settle out (s\<lparr> pending := take i (pending s) @ drop (Suc i) (pending s) \<rparr>)
          else s)"

definition run ::
  "string \<Rightarrow> SettingsFwew \<Rightarrow> SettingsGlobal \<Rightarrow> ('w, 'e) event list \<Rightarrow> ('w, 'e) screen" where
  "run apiRoot sf sg evs = fold (step apiRoot) evs (mount apiRoot (initial sf sg))"

text \<open>The events in which a request settles.\<close>

definition isSettled :: "('w, 'e) event \<Rightarrow> bool" where
  "isSettled ev = (case ev of Settled i out \<Rightarrow> True | _ \<Rightarrow> False)"

text \<open>The events in which a request fails with an error response.\<close>

definition failsWithBody :: "('w, 'e) event \<Rightarrow> bool" where
  "failsWithBody ev =
     (case ev of Settled i (Rejected (AxiosError (Some d))) \<Rightarrow> True | _ \<Rightarrow> False)"

text \<open>Settings used in the examples: forward or reverse lookup, English.\<close>

abbreviation forwardLookup :: SettingsFwew where
  "forwardLookup \<equiv> \<lparr> isReverseEnabled = False \<rparr>"

abbreviation reverseLookup :: SettingsFwew where
  "reverseLookup \<equiv> \<lparr> isReverseEnabled = True \<rparr>"

abbreviation english :: SettingsGlobal where
  "english \<equiv> \<lparr> languageCodeUI = ''en'', languageCode = ''en'' \<rparr>"

section \<open>Endpoint derivation\<close>

lemma getEndpoint_Some:
  "getEndpoint apiRoot s (Some tx) =
     (if tx = [] then apiRoot @ ''/list/''
      else if isReverseEnabled (settingsFwew s)
           then apiRoot @ ''/fwew/r/'' @ languageCode (settingsGlobal s) @ ''/'' @ tx
           else apiRoot @ ''/fwew/'' @ tx)"
  by (simp add: getEndpoint_def)

text \<open>
  C1. For every text, direction flag and language code the endpoint is the listing URL
  when the text is empty, the reverse-lookup URL when the flag is set, and the
  forward-lookup URL otherwise; the two examples of the specification are instances.
\<close>

theorem C1_getEndpoint_shapes:
  "getEndpoint apiRoot (withSettings reverse lang s) (Some tx) =
     (if tx = [] then apiRoot @ ''/list/''
      else if reverse then apiRoot @ ''/fwew/r/'' @ lang @ ''/'' @ tx
      else apiRoot @ ''/fwew/'' @ tx)
   \<and> getEndpoint apiRoot (withSettings False ''en'' s) (Some ''fmawn'') = apiRoot @ ''/fwew/fmawn''
   \<and> getEndpoint apiRoot (withSettings True ''en'' s) (Some ''forest'')
       = apiRoot @ ''/fwew/r/en/forest''"
  by (simp add: getEndpoint_Some withSettings_def)

theorem C1_getEndpoint_shapes_witness:
  "getEndpoint ''https://api'' (withSettings True ''de''
       (initial forwardLookup english :: (nat, nat) screen)) (Some ''wald'')
     = ''https://api/fwew/r/de/wald''"
  using C1_getEndpoint_shapes [of "''https://api''" True "''de''"
      "initial forwardLookup english :: (nat, nat) screen" "''wald''"]
  by simp

section \<open>The start of a fetch\<close>

lemma render_cases:
  "render s =
     (if isLoading s then [ActivityIndicator, Modal (isModalVisible s) (selectedItem s)]
      else [ResultCount (data s), WordList (data s) (err s) (text' s) False,
            Modal (isModalVisible s) (selectedItem s)])"
  by (simp add: render_def)

text \<open>
  C2, as amended. Every fetch trigger sets \<open>isLoading\<close> at the start of the fetch, and
  while it is set the result count and the word list are not rendered. The results
  themselves are empty at that point on mount (their initial value) and on
  pull-to-refresh (which clears them); a text change and a direction toggle leave them
  as they were.
\<close>

theorem C2_fetch_start:
  "isLoading (mount apiRoot (initial sf sg :: ('w, 'e) screen))
   \<and> data (mount apiRoot (initial sf sg :: ('w, 'e) screen)) = []
   \<and> isLoading (onRefresh apiRoot s) \<and> data (onRefresh apiRoot s) = []
   \<and> isLoading (searchData apiRoot tx s) \<and> data (searchData apiRoot tx s) = data s
   \<and> (text' s \<noteq> [] \<longrightarrow> isLoading (toggleReverse apiRoot s))
   \<and> data (toggleReverse apiRoot s) = data s
   \<and> (isLoading (s :: ('w, 'e) screen) \<longrightarrow>
        render s = [ActivityIndicator, Modal (isModalVisible s) (selectedItem s)])"
  by (simp add: mount_def initial_def onRefresh_def searchData_def toggleReverse_def
      onUpdateSettingsFwew_def fetchData_def encodeURI_def render_cases Let_def)

theorem C2_fetch_start_witness:
  "isLoading (toggleReverse ''http://h''
      (fetchData_then [1] (searchData ''http://h'' ''a''
         (initial forwardLookup english :: (nat, nat) screen))))
   \<and> data (toggleReverse ''http://h''
      (fetchData_then [1] (searchData ''http://h'' ''a''
         (initial forwardLookup english :: (nat, nat) screen)))) = [1]
   \<and> render (searchData ''http://h'' ''ab''
      (fetchData_then [1] (searchData ''http://h'' ''a''
         (initial forwardLookup english :: (nat, nat) screen))))
     = [ActivityIndicator, Modal False EmptyObject]"
  using C2_fetch_start [of "''http://h''" forwardLookup english
      "fetchData_then [1] (searchData ''http://h'' ''a''
         (initial forwardLookup english :: (nat, nat) screen))" "''ab''"]
    C2_fetch_start [of "''http://h''" forwardLookup english
      "searchData ''http://h'' ''ab'' (fetchData_then [1] (searchData ''http://h'' ''a''
         (initial forwardLookup english :: (nat, nat) screen)))" "''ab''"]
  by (simp add: initial_def searchData_def fetchData_then_def fetchData_def encodeURI_def)

text \<open>
  C2 as stated fails: after the listing has arrived with one record, typing \<open>a\<close> starts a
  fetch (the request is pending, \<open>isLoading\<close> is set) while the old record is still in
  \<open>data\<close>.
\<close>

theorem C2_counterexample:
  "data (run ''http://h'' forwardLookup english
           [Settled 0 (Resolved [1]), TextChanged ''a''] :: (nat, nat) screen) = [1]
   \<and> isLoading (run ''http://h'' forwardLookup english
           [Settled 0 (Resolved [1]), TextChanged ''a''] :: (nat, nat) screen)
   \<and> pending (run ''http://h'' forwardLookup english
           [Settled 0 (Resolved [1]), TextChanged ''a''] :: (nat, nat) screen)
       = [''http://h/fwew/a'']"
  by (simp add: run_def step_def mount_def initial_def searchData_def fetchData_def
      settle_def fetchData_then_def getEndpoint_Some encodeURI_def encode_def encodeByte_def
      unescapedURISet_def uriReserved_def uriAlpha_def decimalDigit_def uriMark_def)

section \<open>Display modes\<close>

lemma step_before_response:
  "\<not> isSettled ev \<Longrightarrow> isLoading s \<and> data s = [] \<and> err s = EmptyObject
     \<Longrightarrow> isLoading (step apiRoot ev s) \<and> data (step apiRoot ev s) = []
         \<and> err (step apiRoot ev s) = EmptyObject"
  by (auto simp add: isSettled_def step_def searchData_def toggleReverse_def toggleModal_def
      onUpdateSettingsFwew_def fetchData_def encodeURI_def Let_def split: event.splits)

lemma fold_before_response:
  "isLoading s \<and> data s = [] \<and> err s = EmptyObject
     \<Longrightarrow> list_all (\<lambda>ev. \<not> isSettled ev) evs
     \<Longrightarrow> isLoading (fold (step apiRoot) evs s) \<and> data (fold (step apiRoot) evs s) = []
         \<and> err (fold (step apiRoot) evs s) = EmptyObject"
proof (induction evs arbitrary: s)
  case Nil
  then show ?case by simp
next
  case (Cons ev evs)
  from Cons.prems have first: "\<not> isSettled ev"
    and rest: "list_all (\<lambda>ev. \<not> isSettled ev) evs"
    by simp_all
  have "isLoading (step apiRoot ev s) \<and> data (step apiRoot ev s) = []
      \<and> err (step apiRoot ev s) = EmptyObject"
    using first Cons.prems(1) by (rule step_before_response)
  from Cons.IH [OF this rest] show ?case by simp
qed

text \<open>
  C3, as amended. In every reachable state exactly one display mode is rendered, and
  \<open>isLoading\<close> alone selects it: the activity indicator when it is set, the result count
  and the word list (which receives both the results and the error) when it is not. In
  every state reached before the first request settles, \<open>isLoading\<close> is the only one of
  the three conditions that holds. After that the three conditions are not exclusive.
\<close>

theorem C3_display_mode:
  "render (run apiRoot sf sg evs) =
     (if isLoading (run apiRoot sf sg evs)
      then [ActivityIndicator,
            Modal (isModalVisible (run apiRoot sf sg evs)) (selectedItem (run apiRoot sf sg evs))]
      else [ResultCount (data (run apiRoot sf sg evs)),
            WordList (data (run apiRoot sf sg evs)) (err (run apiRoot sf sg evs))
              (text' (run apiRoot sf sg evs)) False,
            Modal (isModalVisible (run apiRoot sf sg evs)) (selectedItem (run apiRoot sf sg evs))])
   \<and> (list_all (\<lambda>ev. \<not> isSettled ev) evs \<longrightarrow>
        isLoading (run apiRoot sf sg evs) \<and> data (run apiRoot sf sg evs) = []
        \<and> err (run apiRoot sf sg evs) = EmptyObject)"
proof -
  have start: "isLoading (mount apiRoot (initial sf sg :: ('a, 'b) screen))
      \<and> data (mount apiRoot (initial sf sg :: ('a, 'b) screen)) = []
      \<and> err (mount apiRoot (initial sf sg :: ('a, 'b) screen)) = EmptyObject"
    by (simp add: mount_def initial_def fetchData_def encodeURI_def)
  from fold_before_response [OF start]
  have "list_all (\<lambda>ev. \<not> isSettled ev) evs \<longrightarrow>
        isLoading (run apiRoot sf sg evs :: ('a, 'b) screen)
        \<and> data (run apiRoot sf sg evs :: ('a, 'b) screen) = []
        \<and> err (run apiRoot sf sg evs :: ('a, 'b) screen) = EmptyObject"
    by (simp add: run_def)
  then show ?thesis by (simp add: render_cases)
qed

theorem C3_display_mode_witness:
  "render (run ''http://h'' forwardLookup english
      [Settled 0 (Rejected (AxiosError (Some (Structured 7)))), TextChanged ''a'',
       Settled 0 (Resolved [1]), EntrySelected 1] :: (nat, nat) screen)
     = [ResultCount [1], WordList [1] (Fields (Structured 7)) ''a'' False, Modal True (Fields 1)]
   \<and> list_all (\<lambda>ev. \<not> isSettled ev)
        [TextChanged ''a'', DirectionToggled, PullToRefresh :: (nat, nat) event]
   \<and> isLoading (run ''http://h'' forwardLookup english
        [TextChanged ''a'', DirectionToggled, PullToRefresh] :: (nat, nat) screen)
   \<and> data (run ''http://h'' forwardLookup english
        [TextChanged ''a'', DirectionToggled, PullToRefresh] :: (nat, nat) screen) = []
   \<and> err (run ''http://h'' forwardLookup english
        [TextChanged ''a'', DirectionToggled, PullToRefresh] :: (nat, nat) screen) = EmptyObject"
proof -
  have shown: "render (run ''http://h'' forwardLookup english
      [Settled 0 (Rejected (AxiosError (Some (Structured 7)))), TextChanged ''a'',
       Settled 0 (Resolved [1]), EntrySelected 1] :: (nat, nat) screen)
     = [ResultCount [1], WordList [1] (Fields (Structured 7)) ''a'' False, Modal True (Fields 1)]"
    using C3_display_mode [of "''http://h''" forwardLookup english
      "[Settled 0 (Rejected (AxiosError (Some (Structured 7)))), TextChanged ''a'',
        Settled 0 (Resolved [1]), EntrySelected 1] :: (nat, nat) event list"]
    by (simp add: run_def step_def mount_def initial_def searchData_def getEndpoint_Some fetchData_def encodeURI_def
        settle_def fetchData_then_def fetchData_catch_def toggleModal_def)
  have early: "list_all (\<lambda>ev. \<not> isSettled ev)
        [TextChanged ''a'', DirectionToggled, PullToRefresh :: (nat, nat) event]"
    by (simp add: isSettled_def)
  from early C3_display_mode [of "''http://h''" forwardLookup english
      "[TextChanged ''a'', DirectionToggled, PullToRefresh] :: (nat, nat) event list"]
  have only: "isLoading (run ''http://h'' forwardLookup english
        [TextChanged ''a'', DirectionToggled, PullToRefresh] :: (nat, nat) screen)
   \<and> data (run ''http://h'' forwardLookup english
        [TextChanged ''a'', DirectionToggled, PullToRefresh] :: (nat, nat) screen) = []
   \<and> err (run ''http://h'' forwardLookup english
        [TextChanged ''a'', DirectionToggled, PullToRefresh] :: (nat, nat) screen) = EmptyObject"
    by blast
  from shown early only show ?thesis by blast
qed

text \<open>
  C3 as stated fails: a fetch fails with an error body, the next one succeeds with one
  record, and the user types again. All three conditions hold in the state reached.
\<close>

theorem C3_counterexample:
  "isLoading (run ''http://h'' forwardLookup english
      [Settled 0 (Rejected (AxiosError (Some (Structured 7)))), TextChanged ''a'',
       Settled 0 (Resolved [1]), TextChanged ''ab''] :: (nat, nat) screen)
   \<and> data (run ''http://h'' forwardLookup english
      [Settled 0 (Rejected (AxiosError (Some (Structured 7)))), TextChanged ''a'',
       Settled 0 (Resolved [1]), TextChanged ''ab''] :: (nat, nat) screen) = [1]
   \<and> err (run ''http://h'' forwardLookup english
      [Settled 0 (Rejected (AxiosError (Some (Structured 7)))), TextChanged ''a'',
       Settled 0 (Resolved [1]), TextChanged ''ab''] :: (nat, nat) screen)
       = Fields (Structured 7)"
  by (simp add: run_def step_def mount_def initial_def searchData_def getEndpoint_Some fetchData_def encodeURI_def
      settle_def fetchData_then_def fetchData_catch_def)

section \<open>Settling of a fetch\<close>

lemma step_err_EmptyObject:
  "\<not> failsWithBody ev \<Longrightarrow> err s = EmptyObject \<Longrightarrow> err (step apiRoot ev s) = EmptyObject"
  by (auto simp add: failsWithBody_def step_def searchData_def toggleReverse_def onRefresh_def
      toggleModal_def onUpdateSettingsFwew_def fetchData_def encodeURI_def settle_def fetchData_then_def
      fetchData_catch_def Let_def
      split: event.splits settled.splits rejection.splits option.splits)

lemma fold_err_EmptyObject:
  "err s = EmptyObject \<Longrightarrow> list_all (\<lambda>ev. \<not> failsWithBody ev) evs
     \<Longrightarrow> err (fold (step apiRoot) evs s) = EmptyObject"
  by (induction evs arbitrary: s) (simp_all add: step_err_EmptyObject)

text \<open>
  C4, as amended. A successful fetch whose response carries N word records leaves
  \<open>results.length = N\<close> and \<open>isLoading = false\<close>, and the error as it was before: the
  success callback does not write it. The error is absent (the initial empty object)
  when no earlier fetch of the run failed with an error response.
\<close>

theorem C4_success:
  "data (settle (Resolved xs) s) = xs
   \<and> length (data (settle (Resolved xs) s)) = length xs
   \<and> isLoading (settle (Resolved xs) s) = False
   \<and> err (settle (Resolved xs) s) = err s
   \<and> (list_all (\<lambda>ev. \<not> failsWithBody ev) evs \<longrightarrow>
        err (settle (Resolved xs) (run apiRoot sf sg evs)) = EmptyObject)"
  using fold_err_EmptyObject [of "mount apiRoot (initial sf sg)" evs apiRoot]
  by (simp add: settle_def fetchData_then_def run_def mount_def fetchData_def encodeURI_def initial_def)

theorem C4_success_witness:
  "list_all (\<lambda>ev. \<not> failsWithBody ev)
      [TextChanged ''a'', Settled 1 (Rejected (AxiosError None)), DirectionToggled
         :: (nat, nat) event]
   \<and> err (settle (Resolved [1, 2]) (run ''http://h'' forwardLookup english
        [TextChanged ''a'', Settled 1 (Rejected (AxiosError None)), DirectionToggled]
          :: (nat, nat) screen)) = EmptyObject
   \<and> length (data (settle (Resolved [1, 2]) (run ''http://h'' forwardLookup english
        [TextChanged ''a'', Settled 1 (Rejected (AxiosError None)), DirectionToggled]
          :: (nat, nat) screen))) = 2"
proof -
  have quiet: "list_all (\<lambda>ev. \<not> failsWithBody ev)
      [TextChanged ''a'', Settled 1 (Rejected (AxiosError None)), DirectionToggled
         :: (nat, nat) event]"
    by (simp add: failsWithBody_def)
  note success = C4_success [where xs = "[1, 2]" and apiRoot = "''http://h''"
      and sf = forwardLookup and sg = english
      and evs = "[TextChanged ''a'', Settled 1 (Rejected (AxiosError None)), DirectionToggled
         :: (nat, nat) event]"
      and s = "run ''http://h'' forwardLookup english
        [TextChanged ''a'', Settled 1 (Rejected (AxiosError None)), DirectionToggled]
          :: (nat, nat) screen"]
  from success quiet have absent: "err (settle (Resolved [1, 2])
      (run ''http://h'' forwardLookup english
        [TextChanged ''a'', Settled 1 (Rejected (AxiosError None)), DirectionToggled]
          :: (nat, nat) screen)) = EmptyObject"
    by blast
  from success have two: "length (data (settle (Resolved [1, 2])
      (run ''http://h'' forwardLookup english
        [TextChanged ''a'', Settled 1 (Rejected (AxiosError None)), DirectionToggled]
          :: (nat, nat) screen))) = length [1, 2 :: nat]"
    by blast
  from quiet absent two show ?thesis by simp
qed

text \<open>
  C4 as stated fails: a fetch fails with an error body, the user types, and the new fetch
  succeeds with one record. The error of the failed fetch is still present.
\<close>

theorem C4_counterexample:
  "err (run ''http://h'' forwardLookup english
      [Settled 0 (Rejected (AxiosError (Some (Structured 7)))), TextChanged ''a'',
       Settled 0 (Resolved [1])] :: (nat, nat) screen) = Fields (Structured 7)
   \<and> length (data (run ''http://h'' forwardLookup english
      [Settled 0 (Rejected (AxiosError (Some (Structured 7)))), TextChanged ''a'',
       Settled 0 (Resolved [1])] :: (nat, nat) screen)) = 1
   \<and> isLoading (run ''http://h'' forwardLookup english
      [Settled 0 (Rejected (AxiosError (Some (Structured 7)))), TextChanged ''a'',
       Settled 0 (Resolved [1])] :: (nat, nat) screen) = False"
  by (simp add: run_def step_def mount_def initial_def searchData_def getEndpoint_Some fetchData_def encodeURI_def
      settle_def fetchData_then_def fetchData_catch_def)

text \<open>
  C5. A fetch that fails as an Axios error whose response carries a structured error
  body leaves \<open>results = []\<close>, the error equal to that body, and \<open>isLoading = false\<close>; the
  callback throws nothing.
\<close>

theorem C5_structured_failure:
  "fetchData_catch (AxiosError (Some (Structured b))) s
     = Inr (settle (Rejected (AxiosError (Some (Structured b)))) s)
   \<and> data (settle (Rejected (AxiosError (Some (Structured b)))) s) = []
   \<and> length (data (settle (Rejected (AxiosError (Some (Structured b)))) s)) = 0
   \<and> err (settle (Rejected (AxiosError (Some (Structured b)))) s) = Fields (Structured b)
   \<and> isLoading (settle (Rejected (AxiosError (Some (Structured b)))) s) = False"
  by (simp add: settle_def fetchData_catch_def)

theorem C5_structured_failure_witness:
  "data (settle (Rejected (AxiosError (Some (Structured 404))))
      (searchData ''http://h'' ''zzz'' (fetchData_then [1, 2]
         (initial forwardLookup english :: (nat, nat) screen)))) = []
   \<and> err (settle (Rejected (AxiosError (Some (Structured 404))))
      (searchData ''http://h'' ''zzz'' (fetchData_then [1, 2]
         (initial forwardLookup english :: (nat, nat) screen)))) = Fields (Structured 404)
   \<and> isLoading (settle (Rejected (AxiosError (Some (Structured 404))))
      (searchData ''http://h'' ''zzz'' (fetchData_then [1, 2]
         (initial forwardLookup english :: (nat, nat) screen)))) = False"
  using C5_structured_failure [of 404 "searchData ''http://h'' ''zzz'' (fetchData_then [1, 2]
         (initial forwardLookup english :: (nat, nat) screen))"]
  by simp

text \<open>
  C6, as amended. A fetch failure that is not an Axios error, or an Axios error that
  carries no response at all, is swallowed with no change to the state: results, error
  and text are unchanged and \<open>isLoading\<close> remains true. When the fetch of the mount fails
  so, no request is pending any more, the activity indicator stays, and no settling can
  change the state: the screen keeps loading until the user acts.
\<close>

theorem C6_swallowed_failure:
  assumes "e = AxiosError None \<or> e = OtherError"
  shows "settle (Rejected e) (s :: ('w, 'e) screen) = s
   \<and> isLoading (settle (Rejected e) (fetchData endpoint s))
   \<and> isLoading (run apiRoot sf sg [Settled 0 (Rejected e)] :: ('w, 'e) screen)
   \<and> pending (run apiRoot sf sg [Settled 0 (Rejected e)] :: ('w, 'e) screen) = []
   \<and> render (run apiRoot sf sg [Settled 0 (Rejected e)] :: ('w, 'e) screen)
       = [ActivityIndicator, Modal False EmptyObject]
   \<and> (\<forall>i out. step apiRoot (Settled i out)
          (run apiRoot sf sg [Settled 0 (Rejected e)] :: ('w, 'e) screen)
        = run apiRoot sf sg [Settled 0 (Rejected e)])"
proof -
  have same: "settle (Rejected e) t = t" for t :: "('w, 'e) screen"
    using assms by (auto simp add: settle_def fetchData_catch_def)
  have loading: "isLoading (settle (Rejected e) (fetchData endpoint s))"
    by (simp add: same fetchData_def encodeURI_def)
  have mounted: "isLoading (run apiRoot sf sg [Settled 0 (Rejected e)] :: ('w, 'e) screen)
      \<and> pending (run apiRoot sf sg [Settled 0 (Rejected e)] :: ('w, 'e) screen) = []
      \<and> isModalVisible (run apiRoot sf sg [Settled 0 (Rejected e)] :: ('w, 'e) screen) = False
      \<and> selectedItem (run apiRoot sf sg [Settled 0 (Rejected e)] :: ('w, 'e) screen)
          = EmptyObject"
    by (simp add: run_def step_def same mount_def fetchData_def encodeURI_def initial_def)
  have shown: "render (run apiRoot sf sg [Settled 0 (Rejected e)] :: ('w, 'e) screen)
      = [ActivityIndicator, Modal False EmptyObject]"
    using mounted by (simp add: render_cases)
  have stuck: "step apiRoot (Settled i out)
        (run apiRoot sf sg [Settled 0 (Rejected e)] :: ('w, 'e) screen)
      = run apiRoot sf sg [Settled 0 (Rejected e)]" for i out
    using mounted by (simp add: step_def)
  from same [of s] loading mounted shown stuck show ?thesis by blast
qed

theorem C6_swallowed_failure_witness:
  "settle (Rejected (AxiosError None))
      (searchData ''http://h'' ''a'' (initial reverseLookup english :: (nat, nat) screen))
     = searchData ''http://h'' ''a'' (initial reverseLookup english)
   \<and> render (run ''http://h'' reverseLookup english
        [Settled 0 (Rejected OtherError)] :: (nat, nat) screen)
       = [ActivityIndicator, Modal False EmptyObject]"
proof -
  have noResponse: "(AxiosError None :: nat rejection) = AxiosError None
      \<or> (AxiosError None :: nat rejection) = OtherError"
    by simp
  have notAxios: "(OtherError :: nat rejection) = AxiosError None
      \<or> (OtherError :: nat rejection) = OtherError"
    by simp
  from C6_swallowed_failure [OF noResponse, where s = "searchData ''http://h'' ''a''
      (initial reverseLookup english :: (nat, nat) screen)"]
  have unchanged: "settle (Rejected (AxiosError None))
      (searchData ''http://h'' ''a'' (initial reverseLookup english :: (nat, nat) screen))
     = searchData ''http://h'' ''a'' (initial reverseLookup english)"
    by blast
  from C6_swallowed_failure [OF notAxios, where apiRoot = "''http://h''"
      and sf = reverseLookup and sg = english]
  have stuck: "render (run ''http://h'' reverseLookup english
        [Settled 0 (Rejected OtherError)] :: (nat, nat) screen)
       = [ActivityIndicator, Modal False EmptyObject]"
    by blast
  from unchanged stuck show ?thesis by blast
qed

text \<open>
  C6 as stated fails: an error response whose body is not a structured error (here the
  text of a gateway's error page) is an Axios error with a response, and the callback
  stores the body, clears the results and ends the loading.
\<close>

theorem C6_counterexample:
  "isLoading (run ''http://h'' forwardLookup english
      [Settled 0 (Rejected (AxiosError (Some (Unstructured ''Bad Gateway''))))]
        :: (nat, nat) screen) = False
   \<and> err (run ''http://h'' forwardLookup english
      [Settled 0 (Rejected (AxiosError (Some (Unstructured ''Bad Gateway''))))]
        :: (nat, nat) screen) = Fields (Unstructured ''Bad Gateway'')
   \<and> isLoading (mount ''http://h'' (initial forwardLookup english :: (nat, nat) screen)) = True
   \<and> err (mount ''http://h'' (initial forwardLookup english :: (nat, nat) screen)) = EmptyObject"
  by (simp add: run_def step_def mount_def initial_def fetchData_def encodeURI_def
      settle_def fetchData_catch_def)

section \<open>The direction toggle\<close>








section \<open>Percent-encoding of the request URL\<close>

text \<open>
  C8. The text of a query is percent-encoded only in part before it is used in the URL
  given to \<open>axios.get\<close>: a space of the text is escaped, but its reserved characters \<open>/\<close>,
  \<open>?\<close> and \<open>#\<close> are not, so that the forward lookup of \<open>r/en/forest\<close> requests the URL of
  the reverse lookup of \<open>forest\<close>.
\<close>

theorem C8_reserved_characters_unescaped:
  "pending (searchData ''http://h'' ''a b''
      (fetchData_then [1] (initial forwardLookup english :: (nat, nat) screen)))
     = [''http://h/fwew/a%20b'']
   \<and> pending (searchData ''http://h'' ''a/b?c#d''
      (fetchData_then [1] (initial forwardLookup english :: (nat, nat) screen)))
     = [''http://h/fwew/a/b?c#d'']
   \<and> pending (searchData ''http://h'' ''a/b?c#d''
      (fetchData_then [1] (initial forwardLookup english :: (nat, nat) screen)))
     \<noteq> [''http://h/fwew/a%2Fb%3Fc%23d'']
   \<and> pending (searchData ''http://h'' ''r/en/forest''
      (fetchData_then [1] (initial forwardLookup english :: (nat, nat) screen)))
     = pending (searchData ''http://h'' ''forest''
      (fetchData_then [1] (initial reverseLookup english :: (nat, nat) screen)))"
  by (simp add: searchData_def fetchData_then_def fetchData_def initial_def getEndpoint_Some
      encodeURI_def encode_def encodeByte_def percentByte_def hexDigit_def
      unescapedURISet_def uriReserved_def uriAlpha_def decimalDigit_def uriMark_def)

section \<open>The empty text and the modal\<close>

text \<open>
  C9. For every language code, the endpoint of the empty text is the listing URL under
  both values of the direction flag (and so is the endpoint of an absent text).
\<close>

theorem C9_empty_text:
  "getEndpoint apiRoot (withSettings True lang s) (Some []) = apiRoot @ ''/list/''
   \<and> getEndpoint apiRoot (withSettings False lang s) (Some []) = apiRoot @ ''/list/''
   \<and> getEndpoint apiRoot (withSettings True lang s) (Some [])
       = getEndpoint apiRoot (withSettings False lang s) (Some [])
   \<and> getEndpoint apiRoot (withSettings reverse lang s) None = apiRoot @ ''/list/''"
  by (simp add: getEndpoint_def)

theorem C9_empty_text_witness:
  "getEndpoint ''http://h'' (withSettings True ''en''
       (initial forwardLookup english :: (nat, nat) screen)) (Some [])
     = ''http://h/list/''
   \<and> getEndpoint ''http://h'' (withSettings False ''en''
       (initial forwardLookup english :: (nat, nat) screen)) (Some [])
     = ''http://h/list/''"
  using C9_empty_text [of "''http://h''" "''en''"
      "initial forwardLookup english :: (nat, nat) screen" True]
  by simp

text \<open>
  C10. \<open>toggleModal(item)\<close> flips \<open>isModalVisible\<close> and sets \<open>selectedItem\<close> to \<open>item\<close>;
  dismissal, which passes the current \<open>selectedItem\<close>, retains it. Text, results, error and
  loading flag are unchanged, and so is everything else.
\<close>

theorem C10_toggleModal:
  "isModalVisible (toggleModal item s) = (\<not> isModalVisible s)
   \<and> selectedItem (toggleModal item s) = item
   \<and> selectedItem (toggleModal (selectedItem s) s) = selectedItem s
   \<and> text' (toggleModal item s) = text' s
   \<and> data (toggleModal item s) = data s
   \<and> err (toggleModal item s) = err s
   \<and> isLoading (toggleModal item s) = isLoading s
   \<and> toggleModal item s = s\<lparr> isModalVisible := \<not> isModalVisible s, selectedItem := item \<rparr>
   \<and> step apiRoot ModalDismissed s
       = (if isModalVisible s then s\<lparr> isModalVisible := False \<rparr> else s)"
  by (simp add: toggleModal_def step_def)

theorem C10_toggleModal_witness:
  "toggleModal (Fields 2) (fetchData_then [1, 2]
      (initial forwardLookup english :: (nat, nat) screen))
     = (fetchData_then [1, 2] (initial forwardLookup english))
         \<lparr> isModalVisible := True, selectedItem := Fields 2 \<rparr>
   \<and> step ''http://h'' ModalDismissed (toggleModal (Fields 2) (fetchData_then [1, 2]
        (initial forwardLookup english :: (nat, nat) screen)))
     = (fetchData_then [1, 2] (initial forwardLookup english))\<lparr> selectedItem := Fields 2 \<rparr>"
  using C10_toggleModal [of "Fields 2" "fetchData_then [1, 2]
      (initial forwardLookup english :: (nat, nat) screen)" "''http://h''"]
    C10_toggleModal [of "Fields 2" "toggleModal (Fields 2) (fetchData_then [1, 2]
      (initial forwardLookup english :: (nat, nat) screen))" "''http://h''"]
  by (simp add: initial_def fetchData_then_def)

end
